theory Spec2Isabelle
  imports Main
begin

section \<open>Machinomy: micropayment channels and the purchasing facade\<close>

text \<open>
  The development embeds \<^verbatim>\<open>src/lib/Machinomy.ts\<close>, the facade class \<^verbatim>\<open>Machinomy\<close>: its
  methods \<^verbatim>\<open>buy\<close>, \<^verbatim>\<open>payment\<close>, \<^verbatim>\<open>deposit\<close>, \<^verbatim>\<open>open\<close>, \<^verbatim>\<open>close\<close> and the private
  \<^verbatim>\<open>nextPayment\<close>. Addresses, channel ids, URLs and metadata are strings; an optional
  property of an options object is an \<open>option\<close>.

  Amounts come in two types. \<open>'n\<close> is what a caller passes where the source says
  \<^verbatim>\<open>BigNumber.BigNumber | number\<close>; \<open>'b\<close> is a \<^verbatim>\<open>BigNumber\<close> value, which is what the
  channel manager takes. The facade never computes with either: it converts the one into
  the other with \<^verbatim>\<open>new BigNumber.BigNumber(x)\<close> and passes the result on.
\<close>

subsection \<open>Errors and asynchronous results\<close>

text \<open>
  \<open>Error msg\<close> is a JavaScript \<^verbatim>\<open>new Error(msg)\<close>, which the facade throws itself and
  which a library may throw. The other constructors are the error kinds of the
  collaborators.
\<close>

datatype error =
    Error string
  | InvalidParameters
  | ChainSubmissionError
  | InsufficientChannelValue
  | ChannelNotFound
  | StalePayment
  | PreflightError
  | PaymentRejected

text \<open>
  Every method of the facade and of its collaborators is \<^verbatim>\<open>async\<close>. An awaited promise is a
  computation on the world \<open>'w\<close> the collaborators act on (tracked channels, chain, network):
  it leaves a new world and either rejects with an error (\<open>Inl\<close>) or resolves with a value
  (\<open>Inr\<close>). \<open>await m k\<close> is \<^verbatim>\<open>const x = await m; k(x)\<close>: a rejection of \<open>m\<close> leaves the
  function at once, with the same error, and \<open>k\<close> is not run.
\<close>

type_synonym ('a, 'w) async = "'w \<Rightarrow> (error + 'a) \<times> 'w"

definition resolve :: "'a \<Rightarrow> ('a, 'w) async" where
  "resolve a = (\<lambda>w. (Inr a, w))"

definition reject :: "error \<Rightarrow> ('a, 'w) async" where
  "reject e = (\<lambda>w. (Inl e, w))"

definition await :: "('a, 'w) async \<Rightarrow> ('a \<Rightarrow> ('b, 'w) async) \<Rightarrow> ('b, 'w) async" where
  "await m k = (\<lambda>w. case m w of (Inl e, w') \<Rightarrow> (Inl e, w') | (Inr a, w') \<Rightarrow> k a w')"

text \<open>
  \<open>evaluating x k\<close> is \<^verbatim>\<open>const v = x; k(v)\<close> for an expression \<open>x\<close> that is evaluated
  synchronously and may throw: inside an \<^verbatim>\<open>async\<close> method the throw rejects the promise,
  the world is untouched and \<open>k\<close> is not run.
\<close>

definition evaluating :: "error + 'a \<Rightarrow> ('a \<Rightarrow> ('c, 'w) async) \<Rightarrow> ('c, 'w) async" where
  "evaluating x k = (case x of Inl e \<Rightarrow> reject e | Inr v \<Rightarrow> k v)"

subsection \<open>The BigNumber library\<close>

text \<open>
  \<^verbatim>\<open>bignumber.js\<close> (pinned at 4.1.0 by \<^verbatim>\<open>package.json\<close>) is imported, not part of the
  repository, and is taken as a parameter. \<open>newBigNumber x\<close> is the expression
  \<^verbatim>\<open>new BigNumber.BigNumber(x)\<close>: the constructor either throws or yields the value.
  \<open>numberZero\<close> is the number literal \<^verbatim>\<open>0\<close>, so that \<^verbatim>\<open>new BigNumber.BigNumber(0)\<close> is
  \<open>newBigNumber (numberZero)\<close>.
\<close>

record ('n, 'b) BigNumberJs =
  newBigNumber :: "'n \<Rightarrow> error + 'b"
  numberZero :: 'n

subsection \<open>Value objects\<close>

text \<open>
  Modelled from the spec: \<^verbatim>\<open>PaymentChannel\<close> and \<^verbatim>\<open>Payment\<close>, which \<^verbatim>\<open>Machinomy.ts\<close>
  imports, with the attributes and the lifecycle states of section 3; their amounts are
  integers, in Wei. The facade itself reads only \<^verbatim>\<open>channel.channelId\<close> and
  \<^verbatim>\<open>payment.channelId\<close>. The cumulative value of a payment, \<^verbatim>\<open>value\<close>, is the field
  \<open>value'\<close>.
\<close>

datatype ChannelState = Open | Settling | Settled

record PaymentChannel =
  channelId :: string
  sender :: string
  receiver :: string
  deposited :: int
  spent :: int
  state :: ChannelState
  settlementDeadline :: "int option"

record Payment =
  channelId :: string
  sender :: string
  receiver :: string
  channelValue :: int
  value' :: int
  meta :: string
  signature :: string
  token :: "string option"

text \<open>
  The other objects carry the properties the facade reads or writes: the \<^verbatim>\<open>token\<close> of the
  response to a delivered payment, the options of a purchase and the two results. A
  transaction result is opaque.
\<close>

type_synonym TransactionResult = string

record AcceptPaymentResponse =
  token :: string

record 'n BuyOptions =
  receiver :: string
  price :: 'n
  gateway :: "string option"
  meta :: "string option"
  purchaseMeta :: "string option"
  contractAddress :: "string option"

record BuyResult =
  token :: string
  channelId :: string

record 's NextPaymentResult =
  payment :: 's

subsection \<open>The collaborators, as the facade uses them\<close>

text \<open>
  \<^verbatim>\<open>Registry\<close>, the channel manager and the client are imported by \<^verbatim>\<open>Machinomy.ts\<close>;
  the facade is modelled over any implementation of the methods it calls.
\<close>

record ('b, 'w) ChannelManager =
  requireOpenChannel :: "string \<Rightarrow> string \<Rightarrow> 'b \<Rightarrow> (PaymentChannel, 'w) async"
  nextPayment :: "string \<Rightarrow> 'b \<Rightarrow> string \<Rightarrow> (Payment, 'w) async"
  spendChannel :: "Payment \<Rightarrow> (unit, 'w) async"
  openChannel :: "string \<Rightarrow> string \<Rightarrow> 'b \<Rightarrow> 'b \<Rightarrow> string option \<Rightarrow> (PaymentChannel, 'w) async"
  deposit :: "string \<Rightarrow> 'b \<Rightarrow> (TransactionResult, 'w) async"
  closeChannel :: "string \<Rightarrow> (TransactionResult, 'w) async"

record 'w Client =
  doPayment :: "Payment \<Rightarrow> string \<Rightarrow> string option \<Rightarrow> (AcceptPaymentResponse, 'w) async"

record ('b, 'w) Registry =
  client :: "('w Client, 'w) async"
  channelManager :: "(('b, 'w) ChannelManager, 'w) async"

subsection \<open>The facade\<close>

text \<open>
  The class holds \<^verbatim>\<open>account\<close>, the address that sends the money, and the \<^verbatim>\<open>registry\<close> built
  from it by the constructor.
\<close>

record ('b, 'w) Machinomy =
  account :: string
  registry :: "('b, 'w) Registry"

text \<open>\<^verbatim>\<open>options.meta || ''\<close>: an absent (or empty) \<^verbatim>\<open>meta\<close> is the empty string.\<close>

definition metaOrEmpty :: "string option \<Rightarrow> string" where
  "metaOrEmpty m = (case m of None \<Rightarrow> '''' | Some s \<Rightarrow> s)"

text \<open>
  The private method \<^verbatim>\<open>nextPayment(options)\<close>. Its first statement constructs the price,
  before the registry is asked for the channel manager.
\<close>

definition Machinomy_nextPayment ::
  "('n, 'b) BigNumberJs \<Rightarrow> ('b, 'w) Machinomy \<Rightarrow> 'n BuyOptions \<Rightarrow> (Payment, 'w) async" where
  "Machinomy_nextPayment lib this options =
     evaluating (newBigNumber lib (BuyOptions.price options)) (\<lambda>price'.
     await (channelManager (registry this)) (\<lambda>channelManager'.
     await (requireOpenChannel channelManager' (account this) (BuyOptions.receiver options) price')
       (\<lambda>channel.
     nextPayment channelManager' (PaymentChannel.channelId channel) price'
       (metaOrEmpty (BuyOptions.meta options)))))"

text \<open>
  \<^verbatim>\<open>buy(options)\<close>. \<^verbatim>\<open>!options.gateway\<close> holds for a missing gateway and for the empty
  string; the \<^verbatim>\<open>throw\<close> of an \<^verbatim>\<open>async\<close> method rejects its promise.
\<close>

definition Machinomy_buy ::
  "('n, 'b) BigNumberJs \<Rightarrow> ('b, 'w) Machinomy \<Rightarrow> 'n BuyOptions \<Rightarrow> (BuyResult, 'w) async" where
  "Machinomy_buy lib this options =
     (case BuyOptions.gateway options of
        None \<Rightarrow> reject (Error ''gateway must be specified.'')
      | Some gateway' \<Rightarrow>
          if gateway' = '''' then reject (Error ''gateway must be specified.'')
          else
            await (client (registry this)) (\<lambda>client'.
            await (channelManager (registry this)) (\<lambda>channelManager'.
            await (Machinomy_nextPayment lib this options) (\<lambda>payment'.
            await (doPayment client' payment' gateway' (purchaseMeta options)) (\<lambda>res.
            await (spendChannel channelManager' payment') (\<lambda>_.
            resolve \<lparr>BuyResult.token = AcceptPaymentResponse.token res,
                     channelId = Payment.channelId payment'\<rparr>))))))"

text \<open>
  \<^verbatim>\<open>payment(options)\<close>. \<open>serialize\<close> is \<^verbatim>\<open>PaymentSerde.instance.serialize\<close>, which is
  imported and taken as a parameter: called once the spend is committed, it yields the
  serialized payment or throws.
\<close>

definition Machinomy_payment ::
  "('n, 'b) BigNumberJs \<Rightarrow> (Payment \<Rightarrow> error + 's) \<Rightarrow> ('b, 'w) Machinomy \<Rightarrow> 'n BuyOptions
     \<Rightarrow> ('s NextPaymentResult, 'w) async" where
  "Machinomy_payment lib serialize this options =
     await (channelManager (registry this)) (\<lambda>channelManager'.
     await (Machinomy_nextPayment lib this options) (\<lambda>payment'.
     await (spendChannel channelManager' payment') (\<lambda>_.
     evaluating (serialize payment') (\<lambda>serialized.
     resolve \<lparr>payment = serialized\<rparr>))))"

text \<open>
  \<^verbatim>\<open>deposit(channelId, value)\<close>: the value is constructed first, then the registry is
  asked for the channel manager.
\<close>

definition Machinomy_deposit ::
  "('n, 'b) BigNumberJs \<Rightarrow> ('b, 'w) Machinomy \<Rightarrow> string \<Rightarrow> 'n \<Rightarrow> (TransactionResult, 'w) async" where
  "Machinomy_deposit lib this channelId' value =
     evaluating (newBigNumber lib value) (\<lambda>amount.
     await (channelManager (registry this)) (\<lambda>channelManager'.
     deposit channelManager' channelId' amount))"


definition Machinomy_close :: "('b, 'w) Machinomy \<Rightarrow> string \<Rightarrow> (TransactionResult, 'w) async" where
  "Machinomy_close this channelId' =
     await (channelManager (registry this)) (\<lambda>channelManager'.
     closeChannel channelManager' channelId')"

subsection \<open>Observing the collaborators\<close>

text \<open>
  To say which collaborator methods a facade method calls, and in which order, the
  collaborators are wrapped: the wrapped method appends its call (name and arguments) to a
  log kept beside the world and then behaves as the method it wraps. The registry's two
  accessors hand out the wrapped collaborators and are not logged themselves.
\<close>

datatype 'b Call =
    RequireOpenChannel string string 'b
  | NextPayment string 'b string
  | SpendChannel Payment
  | OpenChannel string string 'b 'b "string option"
  | Deposit string 'b
  | CloseChannel string
  | DoPayment Payment string "string option"

definition logged :: "'b Call \<Rightarrow> ('a, 'w) async \<Rightarrow> ('a, 'b Call list \<times> 'w) async" where
  "logged c m = (\<lambda>(log, w). case m w of (r, w') \<Rightarrow> (r, (log @ [c], w')))"

definition handing :: "('a \<Rightarrow> 'c) \<Rightarrow> ('a, 'w) async \<Rightarrow> ('c, 'b Call list \<times> 'w) async" where
  "handing f m =
     (\<lambda>(log, w). case m w of (Inl e, w') \<Rightarrow> (Inl e, (log, w')) | (Inr a, w') \<Rightarrow> (Inr (f a), (log, w')))"

definition spyChannelManager ::
  "('b, 'w) ChannelManager \<Rightarrow> ('b, 'b Call list \<times> 'w) ChannelManager" where
  "spyChannelManager cm =
     \<lparr>requireOpenChannel = (\<lambda>s r p. logged (RequireOpenChannel s r p) (requireOpenChannel cm s r p)),
      nextPayment = (\<lambda>c p m. logged (NextPayment c p m) (nextPayment cm c p m)),
      spendChannel = (\<lambda>p. logged (SpendChannel p) (spendChannel cm p)),
      openChannel = (\<lambda>s r i v c. logged (OpenChannel s r i v c) (openChannel cm s r i v c)),
      deposit = (\<lambda>c v. logged (Deposit c v) (deposit cm c v)),
      closeChannel = (\<lambda>c. logged (CloseChannel c) (closeChannel cm c))\<rparr>"

definition spyClient :: "'w Client \<Rightarrow> ('b Call list \<times> 'w) Client" where
  "spyClient cl =
     \<lparr>doPayment = (\<lambda>p g m. logged (DoPayment p g m) (doPayment cl p g m))\<rparr>"

definition spyRegistry :: "('b, 'w) Registry \<Rightarrow> ('b, 'b Call list \<times> 'w) Registry" where
  "spyRegistry reg =
     \<lparr>client = handing spyClient (client reg),
      channelManager = handing spyChannelManager (channelManager reg)\<rparr>"

definition spy :: "('b, 'w) Machinomy \<Rightarrow> ('b, 'b Call list \<times> 'w) Machinomy" where
  "spy this = \<lparr>account = account this, registry = spyRegistry (registry this)\<rparr>"

section \<open>The collaborators of the facade\<close>

text \<open>
  \<^verbatim>\<open>Machinomy.ts\<close> imports the channel manager, the client and the registry; this section
  gives them the behaviour the specification describes (sections 3, 4.1, 4.2 and 6), one
  definition for each operation. What lies outside the system is a parameter: the chain,
  the signing key, the derivation of channel ids, the payee and the clock.
\<close>

subsection \<open>External collaborators\<close>

text \<open>
  Modelled from the spec: the on-chain contract surface of section 6,
  \<^verbatim>\<open>open(receiver, nonce, value)\<close>, \<^verbatim>\<open>deposit(channelId, value)\<close> and \<^verbatim>\<open>close(channelId)\<close>.
\<close>

datatype ChainCall =
    ChainOpen string nat int
  | ChainDeposit string int
  | ChainClose string

text \<open>
  Modelled from the spec: what the Channel Manager and the client depend on but do not
  own. \<open>submit\<close> is the chain: a call either confirms with a transaction result or fails
  (\<open>None\<close>). \<open>deriveChannelId\<close> derives a channel id from sender, receiver and a nonce.
  \<open>sign\<close> is the sender's signature over a payment. \<open>disputed\<close> says whether a
  counter-claim is pending on a channel; \<open>now\<close> and \<open>settlementPeriod\<close> give the dispute
  deadline. \<open>payee\<close> is the receiver's gateway: it accepts a delivered payment with a token
  or rejects it (\<open>None\<close>).
\<close>

record Externals =
  submit :: "ChainCall \<Rightarrow> TransactionResult option"
  deriveChannelId :: "string \<Rightarrow> string \<Rightarrow> nat \<Rightarrow> string"
  sign :: "Payment \<Rightarrow> string"
  disputed :: "string \<Rightarrow> bool"
  now :: int
  settlementPeriod :: int
  payee :: "Payment \<Rightarrow> string \<Rightarrow> string option \<Rightarrow> string option"

subsection \<open>The Channel Manager\<close>

text \<open>
  Modelled from the spec: the channel state the Channel Manager owns (section 5, shared
  resource policy): the tracked channels, in the order they were opened, and the nonce of
  the next channel.
\<close>

record ManagerState =
  channels :: "PaymentChannel list"
  nonce :: nat

text \<open>
  Modelled from the spec: \<^verbatim>\<open>channelById(id)\<close>, the tracked channel with that id (the
  channel id is the primary key; the first channel opened under an id is the one found).
\<close>

definition channelById :: "string \<Rightarrow> ManagerState \<Rightarrow> PaymentChannel option" where
  "channelById cid st = find (\<lambda>c. PaymentChannel.channelId c = cid) (channels st)"

text \<open>
  Modelled from the spec: the write to the tracked channel with a given id, the channel
  that \<open>channelById\<close> finds.
\<close>

fun updateChannel ::
  "string \<Rightarrow> (PaymentChannel \<Rightarrow> PaymentChannel) \<Rightarrow> PaymentChannel list \<Rightarrow> PaymentChannel list" where
  "updateChannel cid f [] = []"
| "updateChannel cid f (c # cs) =
     (if PaymentChannel.channelId c = cid then f c # cs else c # updateChannel cid f cs)"

text \<open>
  Modelled from the spec: \<^verbatim>\<open>openChannel(sender, receiver, initialSpent, value, channelId?)\<close>
  of section 4.1. It fails with \<open>InvalidParameters\<close>, before any I/O, if \<open>value \<le> 0\<close>,
  and also if the channel asked for would break the invariant \<open>0 \<le> spent \<le> deposited\<close>
  of section 3 (section 7: malformed inputs are caught before any I/O and the manager
  fails fast on invariant violations). It fails with \<open>ChainSubmissionError\<close> if the
  transaction fails. Otherwise the new \<open>Open\<close> channel is tracked, with \<open>value\<close>
  deposited and \<open>initialSpent\<close> spent.
\<close>

definition spec_openChannel ::
  "Externals \<Rightarrow> string \<Rightarrow> string \<Rightarrow> int \<Rightarrow> int \<Rightarrow> string option
     \<Rightarrow> (PaymentChannel, ManagerState) async" where
  "spec_openChannel ext sender' receiver' initialSpent value channelId' st =
     (if value \<le> 0 \<or> initialSpent < 0 \<or> value < initialSpent then (Inl InvalidParameters, st)
      else
        (case submit ext (ChainOpen receiver' (nonce st) value) of
           None \<Rightarrow> (Inl ChainSubmissionError, st)
         | Some tx \<Rightarrow>
            let c = \<lparr>PaymentChannel.channelId =
                       (case channelId' of
                          Some cid \<Rightarrow> cid
                        | None \<Rightarrow> deriveChannelId ext sender' receiver' (nonce st)),
                     sender = sender', receiver = receiver', deposited = value,
                     spent = initialSpent, state = Open, settlementDeadline = None\<rparr>
            in (Inr c, st\<lparr>channels := channels st @ [c], nonce := Suc (nonce st)\<rparr>)))"

text \<open>
  Modelled from the spec: the channels \<^verbatim>\<open>requireOpenChannel\<close> may return, an \<open>Open\<close> channel
  between sender and receiver whose \<open>deposited - spent \<ge> price\<close>.
\<close>

definition suitable :: "string \<Rightarrow> string \<Rightarrow> int \<Rightarrow> PaymentChannel \<Rightarrow> bool" where
  "suitable sender' receiver' price' c \<longleftrightarrow>
     state c = Open \<and> PaymentChannel.sender c = sender' \<and> PaymentChannel.receiver c = receiver'
     \<and> price' \<le> deposited c - spent c"

text \<open>
  Modelled from the spec: \<^verbatim>\<open>requireOpenChannel(sender, receiver, price)\<close> of section 4.1:
  an existing suitable channel, or a new channel opened with ten times the price, nothing
  spent. The serialisation of concurrent callers is not part of this sequential model.
\<close>

definition spec_requireOpenChannel ::
  "Externals \<Rightarrow> string \<Rightarrow> string \<Rightarrow> int \<Rightarrow> (PaymentChannel, ManagerState) async" where
  "spec_requireOpenChannel ext sender' receiver' price' st =
     (case find (suitable sender' receiver' price') (channels st) of
        Some c \<Rightarrow> (Inr c, st)
      | None \<Rightarrow> spec_openChannel ext sender' receiver' 0 (price' * 10) None st)"

text \<open>
  Modelled from the spec: \<^verbatim>\<open>nextPayment(channelId, priceIncrement, meta)\<close> of section 4.1.
  The payment carries the channel's id, parties and deposit, the cumulative value
  \<open>spent + priceIncrement\<close> and the sender's signature; the recorded state is returned as it
  was. \<open>Open\<close> is the only state in which a payment is minted: a channel that is tracked
  but not \<open>Open\<close> is reported as \<open>ChannelNotFound\<close>, the spec naming no other error.
\<close>

definition spec_nextPayment ::
  "Externals \<Rightarrow> string \<Rightarrow> int \<Rightarrow> string \<Rightarrow> (Payment, ManagerState) async" where
  "spec_nextPayment ext cid priceIncrement meta' st =
     (case channelById cid st of
        None \<Rightarrow> (Inl ChannelNotFound, st)
      | Some c \<Rightarrow>
          if state c \<noteq> Open then (Inl ChannelNotFound, st)
          else if deposited c < spent c + priceIncrement then (Inl InsufficientChannelValue, st)
          else
            let p = \<lparr>Payment.channelId = cid, sender = PaymentChannel.sender c,
                     receiver = PaymentChannel.receiver c, channelValue = deposited c,
                     value' = spent c + priceIncrement, meta = meta', signature = '''',
                     token = None\<rparr>
            in (Inr (p\<lparr>signature := sign ext p\<rparr>), st))"

text \<open>
  Modelled from the spec: \<^verbatim>\<open>spendChannel(payment)\<close> of section 4.1: it validates
  \<open>payment.value > channel.spent\<close> and then advances \<open>spent\<close> to \<open>payment.value\<close>; otherwise
  it fails with \<open>StalePayment\<close>. A payment of no tracked channel is \<open>ChannelNotFound\<close>.
\<close>

definition spec_spendChannel :: "Payment \<Rightarrow> (unit, ManagerState) async" where
  "spec_spendChannel p st =
     (case channelById (Payment.channelId p) st of
        None \<Rightarrow> (Inl ChannelNotFound, st)
      | Some c \<Rightarrow>
          if spent c < value' p
          then (Inr (),
                st\<lparr>channels :=
                     updateChannel (Payment.channelId p) (\<lambda>c. c\<lparr>spent := value' p\<rparr>) (channels st)\<rparr>)
          else (Inl StalePayment, st))"

text \<open>
  Modelled from the spec: \<^verbatim>\<open>deposit(channelId, value)\<close> of section 4.1: an on-chain top-up
  that increases \<open>deposited\<close> by \<open>value\<close>, only legal while \<open>Open\<close> (a channel that is
  not \<open>Open\<close> is reported as \<open>ChannelNotFound\<close>, as for minting). An amount that does not
  increase \<open>deposited\<close> is a malformed input and fails with \<open>InvalidParameters\<close> before
  any I/O (section 7), as it does for \<^verbatim>\<open>openChannel\<close>.
\<close>

definition spec_deposit ::
  "Externals \<Rightarrow> string \<Rightarrow> int \<Rightarrow> (TransactionResult, ManagerState) async" where
  "spec_deposit ext cid value st =
     (if value \<le> 0 then (Inl InvalidParameters, st)
      else
        (case channelById cid st of
           None \<Rightarrow> (Inl ChannelNotFound, st)
         | Some c \<Rightarrow>
             if state c \<noteq> Open then (Inl ChannelNotFound, st)
             else
               (case submit ext (ChainDeposit cid value) of
                  None \<Rightarrow> (Inl ChainSubmissionError, st)
                | Some tx \<Rightarrow>
                    (Inr tx,
                     st\<lparr>channels :=
                          updateChannel cid (\<lambda>c. c\<lparr>deposited := deposited c + value\<rparr>)
                            (channels st)\<rparr>))))"

text \<open>
  Modelled from the spec: whether the dispute deadline of a settling channel has elapsed.
\<close>

definition deadlineElapsed :: "Externals \<Rightarrow> PaymentChannel \<Rightarrow> bool" where
  "deadlineElapsed ext c = (case settlementDeadline c of None \<Rightarrow> True | Some d \<Rightarrow> d \<le> now ext)"

text \<open>
  Modelled from the spec: \<^verbatim>\<open>closeChannel(channelId)\<close> and the state machine of section 4.1,
  for the manager of \<open>account'\<close>. \<open>Open\<close> goes to \<open>Settled\<close> when the sender closes with no
  counter-claim pending, and to \<open>Settling\<close>, with the dispute deadline, otherwise; \<open>Settling\<close>
  goes to \<open>Settled\<close> once the deadline has elapsed; no transition leaves \<open>Settled\<close>. Only
  the lifecycle state and the deadline are written.
\<close>

definition spec_closeChannel ::
  "Externals \<Rightarrow> string \<Rightarrow> string \<Rightarrow> (TransactionResult, ManagerState) async" where
  "spec_closeChannel ext account' cid st =
     (case channelById cid st of
        None \<Rightarrow> (Inl ChannelNotFound, st)
      | Some c \<Rightarrow>
          if state c = Settled then (Inl ChannelNotFound, st)
          else if state c = Settling \<and> \<not> deadlineElapsed ext c then (Inl ChainSubmissionError, st)
          else
            (case submit ext (ChainClose cid) of
               None \<Rightarrow> (Inl ChainSubmissionError, st)
             | Some tx \<Rightarrow>
                 if state c = Settling \<or> (account' = PaymentChannel.sender c \<and> \<not> disputed ext cid)
                 then (Inr tx,
                       st\<lparr>channels := updateChannel cid (\<lambda>c. c\<lparr>state := Settled\<rparr>) (channels st)\<rparr>)
                 else (Inr tx,
                       st\<lparr>channels :=
                            updateChannel cid
                              (\<lambda>c. c\<lparr>state := Settling,
                                     settlementDeadline := Some (now ext + settlementPeriod ext)\<rparr>)
                              (channels st)\<rparr>)))"

text \<open>
  Modelled from the spec: the Channel Manager of \<open>account'\<close>, as the object the registry
  hands to the facade.
\<close>

definition specChannelManager ::
  "Externals \<Rightarrow> string \<Rightarrow> (int, ManagerState) ChannelManager" where
  "specChannelManager ext account' =
     \<lparr>requireOpenChannel = spec_requireOpenChannel ext,
      nextPayment = spec_nextPayment ext,
      spendChannel = spec_spendChannel,
      openChannel = spec_openChannel ext,
      deposit = spec_deposit ext,
      closeChannel = spec_closeChannel ext account'\<rparr>"

subsection \<open>The Negotiation Client and the registry\<close>

text \<open>
  Modelled from the spec: \<^verbatim>\<open>doPayment\<close> of section 4.2. A payment is delivered to the
  payee's gateway and returns the token, or fails with \<open>PaymentRejected\<close>. The client does
  not touch the channel state.
\<close>

definition specClient :: "Externals \<Rightarrow> ManagerState Client" where
  "specClient ext =
     \<lparr>doPayment =
        (\<lambda>p gateway' purchaseMeta' st.
           case payee ext p gateway' purchaseMeta' of
             None \<Rightarrow> (Inl PaymentRejected, st)
           | Some t \<Rightarrow> (Inr \<lparr>AcceptPaymentResponse.token = t\<rparr>, st))\<rparr>"

text \<open>
  Modelled from the spec: the registry of \<open>account'\<close>, which hands out the one client and
  the one Channel Manager (section 9, lazy construction of the collaborators).
\<close>

definition specRegistry :: "Externals \<Rightarrow> string \<Rightarrow> (int, ManagerState) Registry" where
  "specRegistry ext account' =
     \<lparr>client = resolve (specClient ext),
      channelManager = resolve (specChannelManager ext account')\<rparr>"

text \<open>
  The constructor of the facade, \<^verbatim>\<open>new Machinomy(account, web3, options)\<close>, over that
  registry.
\<close>

definition newMachinomy :: "Externals \<Rightarrow> string \<Rightarrow> (int, ManagerState) Machinomy" where
  "newMachinomy ext account' = \<lparr>account = account', registry = specRegistry ext account'\<rparr>"

subsection \<open>The lifetime of the channels\<close>









text \<open>
  Every minted payment belongs to a tracked channel and does not exceed its deposit.
\<close>

definition backed :: "ManagerState \<Rightarrow> Payment \<Rightarrow> bool" where
  "backed st p \<longleftrightarrow>
     (case channelById (Payment.channelId p) st of
        None \<Rightarrow> False
      | Some c \<Rightarrow> value' p \<le> deposited c)"



text \<open>
  Between an earlier and a later state: every channel tracked earlier is still tracked, in
  its place and under its id, and its \<open>spent\<close> has not decreased.
\<close>

definition notDecreased :: "PaymentChannel \<Rightarrow> PaymentChannel \<Rightarrow> bool" where
  "notDecreased c c' \<longleftrightarrow>
     PaymentChannel.channelId c' = PaymentChannel.channelId c \<and> spent c \<le> spent c'"

definition spentNotDecreased :: "ManagerState \<Rightarrow> ManagerState \<Rightarrow> bool" where
  "spentNotDecreased st st' \<longleftrightarrow>
     length (channels st) \<le> length (channels st')
     \<and> list_all2 notDecreased (channels st) (take (length (channels st)) (channels st'))"

subsection \<open>Concrete collaborators\<close>

text \<open>
  A chain that confirms every call, a payee that accepts every payment, no dispute.
\<close>

definition exampleExternals :: Externals where
  "exampleExternals =
     \<lparr>submit = (\<lambda>c. Some ''0xtx''),
      deriveChannelId = (\<lambda>s r n. s @ r @ replicate n (CHR ''+'')),
      sign = (\<lambda>p. ''sig''),
      disputed = (\<lambda>cid. False),
      now = 0,
      settlementPeriod = 100,
      payee = (\<lambda>p g m. Some ''tok'')\<rparr>"

text \<open>The same, with a chain on which every transaction fails.\<close>

definition offlineExternals :: Externals where
  "offlineExternals = exampleExternals\<lparr>submit := (\<lambda>c. None)\<rparr>"

definition emptyState :: ManagerState where
  "emptyState = \<lparr>channels = [], nonce = 0\<rparr>"


text \<open>
  A library whose constructor takes integers for numbers and refuses those of more than
  15 digits.
\<close>

definition exampleBigNumber :: "(int, int) BigNumberJs" where
  "exampleBigNumber =
     \<lparr>newBigNumber =
        (\<lambda>n. if \<bar>n\<bar> < 1000000000000000 then Inr n
             else Inl (Error ''new BigNumber() number type has more than 15 significant digits'')),
      numberZero = 0\<rparr>"

text \<open>A serialization that keeps the cumulative value of the payment.\<close>

definition exampleSerialize :: "Payment \<Rightarrow> error + int" where
  "exampleSerialize p = Inr (value' p)"

text \<open>
  A purchase of 100 Wei from \<open>bob\<close>, a channel between \<open>alice\<close> and \<open>bob\<close> with 300
  of 1000 spent, and the payment of 100 more on it.
\<close>

definition exampleOptions :: "int BuyOptions" where
  "exampleOptions =
     \<lparr>BuyOptions.receiver = ''bob'', price = 100,
      gateway = Some ''http://localhost:3001/machinomy'', meta = None, purchaseMeta = None,
      contractAddress = None\<rparr>"

definition exampleChannel :: PaymentChannel where
  "exampleChannel =
     \<lparr>PaymentChannel.channelId = ''c1'', sender = ''alice'', receiver = ''bob'', deposited = 1000,
      spent = 300, state = Open, settlementDeadline = None\<rparr>"

definition examplePayment :: Payment where
  "examplePayment =
     \<lparr>Payment.channelId = ''c1'', sender = ''alice'', receiver = ''bob'', channelValue = 1000,
      value' = 400, meta = '''', signature = ''sig'', token = None\<rparr>"

text \<open>
  Scripted collaborators. The world counts the awaited calls; the call made in world \<open>n\<close>
  resolves when \<open>ok n\<close> holds and rejects otherwise.
\<close>

definition stubChannelManager :: "(nat \<Rightarrow> bool) \<Rightarrow> (int, nat) ChannelManager" where
  "stubChannelManager ok =
     \<lparr>requireOpenChannel =
        (\<lambda>s r p n. (if ok n then Inr exampleChannel else Inl ChainSubmissionError, Suc n)),
      nextPayment =
        (\<lambda>c p m n. (if ok n then Inr examplePayment else Inl InsufficientChannelValue, Suc n)),
      spendChannel = (\<lambda>p n. (if ok n then Inr () else Inl StalePayment, Suc n)),
      openChannel =
        (\<lambda>s r i v c n. (if ok n then Inr exampleChannel else Inl ChainSubmissionError, Suc n)),
      deposit = (\<lambda>c v n. (if ok n then Inr ''0xtx'' else Inl ChainSubmissionError, Suc n)),
      closeChannel = (\<lambda>c n. (if ok n then Inr ''0xtx'' else Inl ChainSubmissionError, Suc n))\<rparr>"

definition stubClient :: "(nat \<Rightarrow> bool) \<Rightarrow> nat Client" where
  "stubClient ok =
     \<lparr>doPayment =
        (\<lambda>p g m n. (if ok n then Inr \<lparr>AcceptPaymentResponse.token = ''tok''\<rparr>
                     else Inl PaymentRejected, Suc n))\<rparr>"

definition stubMachinomy :: "(nat \<Rightarrow> bool) \<Rightarrow> (int, nat) Machinomy" where
  "stubMachinomy ok =
     \<lparr>account = ''alice'',
      registry =
        \<lparr>client = (\<lambda>n. (if ok n then Inr (stubClient ok) else Inl (Error ''no client''), Suc n)),
         channelManager =
           (\<lambda>n. (if ok n then Inr (stubChannelManager ok) else Inl (Error ''no manager''), Suc n))\<rparr>\<rparr>"

text \<open>A state that tracks the one example channel.\<close>

definition exampleState :: ManagerState where
  "exampleState = \<lparr>channels = [exampleChannel], nonce = 1\<rparr>"



section \<open>Properties of the facade\<close>

text \<open>Abbreviations for unfolding the wrapped and the concrete collaborators.\<close>

lemmas spy_defs = spy_def spyRegistry_def spyChannelManager_def spyClient_def
lemmas spec_defs = newMachinomy_def specRegistry_def specChannelManager_def specClient_def

lemmas stub_defs = stubMachinomy_def stubChannelManager_def stubClient_def exampleOptions_def
  exampleChannel_def examplePayment_def exampleBigNumber_def
lemmas run_defs = Machinomy_buy_def Machinomy_nextPayment_def spy_defs await_def handing_def
  logged_def resolve_def reject_def evaluating_def Let_def metaOrEmpty_def
lemmas manager_defs = spec_requireOpenChannel_def spec_openChannel_def spec_nextPayment_def
  spec_spendChannel_def spec_deposit_def spec_closeChannel_def channelById_def suitable_def
  exampleExternals_def emptyState_def

subsection \<open>The channel store\<close>

lemma find_updateChannel_same:
  "(\<And>c. PaymentChannel.channelId (f c) = PaymentChannel.channelId c) \<Longrightarrow>
   find (\<lambda>c. PaymentChannel.channelId c = cid) (updateChannel cid f cs)
     = map_option f (find (\<lambda>c. PaymentChannel.channelId c = cid) cs)"
  by (induction cs) auto


lemma length_updateChannel [simp]: "length (updateChannel cid f cs) = length cs"
  by (induction cs) auto

lemma spec_nextPayment_state: "snd (spec_nextPayment ext cid inc m st) = st"
  by (simp add: spec_nextPayment_def Let_def split: option.splits)

lemma spec_spendChannel_failed: "spec_spendChannel p st = (Inl e, st') \<Longrightarrow> st' = st"
  by (auto simp: spec_spendChannel_def split: option.splits if_splits)

lemma spec_openChannel_channels:
  "spec_openChannel ext s r i v cid st = (x, st') \<Longrightarrow>
     (\<exists>e. x = Inl e \<and> st' = st)
   \<or> (\<exists>c. x = Inr c \<and> channels st' = channels st @ [c] \<and> spent c = i \<and> deposited c = v
          \<and> PaymentChannel.sender c = s \<and> PaymentChannel.receiver c = r \<and> state c = Open
          \<and> 0 < v \<and> 0 \<le> i \<and> i \<le> v)"
  by (auto simp: spec_openChannel_def Let_def split: option.splits if_splits)

lemma spec_requireOpenChannel_channels:
  "spec_requireOpenChannel ext s r p st = (x, st') \<Longrightarrow>
     (\<exists>e. x = Inl e \<and> st' = st)
   \<or> (\<exists>c. x = Inr c \<and> st' = st \<and> c \<in> set (channels st) \<and> suitable s r p c)
   \<or> (\<exists>c. x = Inr c \<and> channels st' = channels st @ [c] \<and> spent c = 0 \<and> deposited c = p * 10)"
  by (auto simp: spec_requireOpenChannel_def split: option.splits dest: spec_openChannel_channels
      dest!: find_Some_iff[THEN iffD1] simp: in_set_conv_nth)

lemma spec_nextPayment_minted:
  "spec_nextPayment ext cid inc m st = (Inr p, st') \<Longrightarrow>
     st' = st \<and> Payment.channelId p = cid
     \<and> (\<exists>c. channelById cid st = Some c \<and> state c = Open \<and> value' p = spent c + inc
              \<and> value' p \<le> deposited c \<and> channelValue p = deposited c)"
  by (auto simp: spec_nextPayment_def Let_def split: option.splits if_splits)

lemma spec_spendChannel_committed:
  "spec_spendChannel p st = (Inr u, st') \<Longrightarrow>
     \<exists>c. channelById (Payment.channelId p) st = Some c \<and> spent c < value' p
       \<and> channelById (Payment.channelId p) st' = Some (c\<lparr>spent := value' p\<rparr>)"
  by (auto simp: spec_spendChannel_def channelById_def find_updateChannel_same
           split: option.splits if_splits)

lemma find_appended:
  "find P (xs @ ys) = (case find P xs of Some x \<Rightarrow> Some x | None \<Rightarrow> find P ys)"
  by (induction xs) auto

lemma channelById_channels_cong:
  "channels st' = channels st \<Longrightarrow> channelById cid st' = channelById cid st"
  by (simp add: channelById_def)

lemma channelById_appended:
  "channels st' = channels st @ [c] \<Longrightarrow>
   channelById cid st'
     = (case channelById cid st of
          Some x \<Rightarrow> Some x
        | None \<Rightarrow> if PaymentChannel.channelId c = cid then Some c else None)"
  by (simp add: channelById_def find_appended split: option.splits)

subsection \<open>A purchase\<close>

lemma nextPayment_spec_unfold:
  "Machinomy_nextPayment lib (newMachinomy ext a) options st =
     (case newBigNumber lib (BuyOptions.price options) of
        Inl e \<Rightarrow> (Inl e, st)
      | Inr v \<Rightarrow>
          (case spec_requireOpenChannel ext a (BuyOptions.receiver options) v st of
             (Inl e, st1) \<Rightarrow> (Inl e, st1)
           | (Inr ch, st1) \<Rightarrow>
               spec_nextPayment ext (PaymentChannel.channelId ch) v
                 (metaOrEmpty (BuyOptions.meta options)) st1))"
  by (simp add: Machinomy_nextPayment_def spec_defs await_def resolve_def reject_def evaluating_def
           split: prod.splits sum.splits)

lemma nextPayment_spec_channels:
  assumes "Machinomy_nextPayment lib (newMachinomy ext a) options st = (x, st')"
  shows "channels st' = channels st \<or> (\<exists>c. channels st' = channels st @ [c] \<and> spent c = 0)"
proof (cases "newBigNumber lib (BuyOptions.price options)")
  case (Inl e)
  with assms show ?thesis by (simp add: nextPayment_spec_unfold)
next
  case (Inr v)
  obtain y st1 where roc:
    "spec_requireOpenChannel ext a (BuyOptions.receiver options) v st = (y, st1)"
    by fastforce
  from spec_requireOpenChannel_channels[OF roc]
  have st1: "channels st1 = channels st \<or> (\<exists>c. channels st1 = channels st @ [c] \<and> spent c = 0)"
    by auto
  show ?thesis
  proof (cases y)
    case (Inl e)
    with assms Inr roc st1 show ?thesis by (simp add: nextPayment_spec_unfold)
  next
    case (Inr ch)
    with assms \<open>newBigNumber lib (BuyOptions.price options) = Inr v\<close> roc
    have "spec_nextPayment ext (PaymentChannel.channelId ch) v
            (metaOrEmpty (BuyOptions.meta options)) st1 = (x, st')"
      by (simp add: nextPayment_spec_unfold)
    with spec_nextPayment_state[of ext "PaymentChannel.channelId ch" v
          "metaOrEmpty (BuyOptions.meta options)" st1]
    have "st' = st1" by simp
    with st1 show ?thesis by simp
  qed
qed

lemma nextPayment_spec_minted:
  assumes "Machinomy_nextPayment lib (newMachinomy ext a) options st = (Inr p, st')"
  shows "\<exists>v c. newBigNumber lib (BuyOptions.price options) = Inr v
           \<and> channelById (Payment.channelId p) st' = Some c
           \<and> value' p = spent c + v
           \<and> spent c = (case channelById (Payment.channelId p) st of Some c0 \<Rightarrow> spent c0 | None \<Rightarrow> 0)"
proof (cases "newBigNumber lib (BuyOptions.price options)")
  case (Inl e)
  with assms show ?thesis by (simp add: nextPayment_spec_unfold)
next
  case (Inr v)
  obtain y st1 where roc:
    "spec_requireOpenChannel ext a (BuyOptions.receiver options) v st = (y, st1)"
    by fastforce
  from assms Inr roc obtain ch where y: "y = Inr ch"
    by (cases y) (auto simp: nextPayment_spec_unfold)
  from assms Inr roc y
  have np: "spec_nextPayment ext (PaymentChannel.channelId ch) v
              (metaOrEmpty (BuyOptions.meta options)) st1 = (Inr p, st')"
    by (simp add: nextPayment_spec_unfold)
  from spec_nextPayment_minted[OF np] obtain c where
    st': "st' = st1" and pid: "Payment.channelId p = PaymentChannel.channelId ch"
    and c: "channelById (PaymentChannel.channelId ch) st1 = Some c" "value' p = spent c + v"
    by auto
  have "spent c = (case channelById (Payment.channelId p) st of Some c0 \<Rightarrow> spent c0 | None \<Rightarrow> 0)"
  proof -
    from spec_requireOpenChannel_channels[OF roc] y
    consider (found) "st1 = st" "ch \<in> set (channels st)"
      | (opened) "channels st1 = channels st @ [ch]" "spent ch = 0"
      by auto
    then show ?thesis
    proof cases
      case found
      with c pid show ?thesis by simp
    next
      case opened
      with c pid show ?thesis
        by (auto simp: channelById_appended split: option.splits if_splits)
    qed
  qed
  with Inr c pid st' show ?thesis by simp
qed

lemma buy_spec_unfold:
  "BuyOptions.gateway options = Some g \<Longrightarrow> g \<noteq> '''' \<Longrightarrow>
   Machinomy_buy lib (newMachinomy ext a) options st =
     (case Machinomy_nextPayment lib (newMachinomy ext a) options st of
        (Inl e, st2) \<Rightarrow> (Inl e, st2)
      | (Inr p, st2) \<Rightarrow>
          (case payee ext p g (purchaseMeta options) of
             None \<Rightarrow> (Inl PaymentRejected, st2)
           | Some t \<Rightarrow>
               (case spec_spendChannel p st2 of
                  (Inl e, st3) \<Rightarrow> (Inl e, st3)
                | (Inr u, st3) \<Rightarrow>
                    (Inr \<lparr>BuyResult.token = t, channelId = Payment.channelId p\<rparr>, st3))))"
  by (simp add: Machinomy_buy_def spec_defs await_def resolve_def
           split: prod.splits sum.splits option.splits)

lemma buy_spec_failed:
  assumes "Machinomy_buy lib (newMachinomy ext a) options st = (Inl e, st')"
  shows "channels st' = channels st \<or> (\<exists>c. channels st' = channels st @ [c] \<and> spent c = 0)"
proof (cases "BuyOptions.gateway options = None \<or> BuyOptions.gateway options = Some ''''")
  case True
  then show ?thesis using assms by (auto simp: Machinomy_buy_def reject_def)
next
  case False
  then obtain g where g: "BuyOptions.gateway options = Some g" "g \<noteq> ''''" by auto
  obtain y st2 where np: "Machinomy_nextPayment lib (newMachinomy ext a) options st = (y, st2)"
    by fastforce
  from nextPayment_spec_channels[OF np]
  have st2: "channels st2 = channels st \<or> (\<exists>c. channels st2 = channels st @ [c] \<and> spent c = 0)" .
  show ?thesis
  proof (cases y)
    case (Inl e2)
    with np assms g st2 show ?thesis by (auto simp: buy_spec_unfold)
  next
    case (Inr p)
    with np assms g st2 show ?thesis
      by (auto simp: buy_spec_unfold split: option.splits prod.splits sum.splits
               dest: spec_spendChannel_failed)
  qed
qed

lemma buy_spec_succeeded:
  assumes "Machinomy_buy lib (newMachinomy ext a) options st = (Inr res, st')"
  shows "\<exists>g p c. BuyOptions.gateway options = Some g
           \<and> payee ext p g (purchaseMeta options) = Some (BuyResult.token res)
           \<and> Payment.channelId p = BuyResult.channelId res
           \<and> channelById (BuyResult.channelId res) st' = Some c \<and> spent c = value' p"
proof (cases "BuyOptions.gateway options = None \<or> BuyOptions.gateway options = Some ''''")
  case True
  then show ?thesis using assms by (auto simp: Machinomy_buy_def reject_def)
next
  case False
  then obtain g where g: "BuyOptions.gateway options = Some g" "g \<noteq> ''''" by auto
  from assms g show ?thesis
    by (auto simp: buy_spec_unfold split: option.splits prod.splits sum.splits
             dest!: spec_spendChannel_committed)
qed

text \<open>
  Claim C7. A purchase whose gateway is absent (missing, or the empty string) fails with
  the error \<^verbatim>\<open>gateway must be specified.\<close> and does nothing else: whatever the library
  and the collaborators are, the world is left as it was, and no method of the channel
  manager or of the client has been called (the log of the observed collaborators is
  unchanged), so no channel is looked up or opened and no payment is minted.
\<close>

theorem buy_without_gateway:
  assumes "BuyOptions.gateway options = None \<or> BuyOptions.gateway options = Some ''''"
  shows "Machinomy_buy lib this options w = (Inl (Error ''gateway must be specified.''), w)
       \<and> Machinomy_buy lib (spy this) options (log, w)
           = (Inl (Error ''gateway must be specified.''), (log, w))"
  using assms by (auto simp: Machinomy_buy_def reject_def)

theorem buy_without_gateway_witness:
  "BuyOptions.gateway (exampleOptions\<lparr>gateway := None\<rparr>) = None
   \<and> Machinomy_buy exampleBigNumber (spy (newMachinomy exampleExternals ''alice''))
         (exampleOptions\<lparr>gateway := None\<rparr>) ([], emptyState)
       = (Inl (Error ''gateway must be specified.''), ([], emptyState))
   \<and> BuyOptions.gateway (exampleOptions\<lparr>gateway := Some ''''\<rparr>) = Some ''''
   \<and> Machinomy_buy exampleBigNumber (spy (newMachinomy exampleExternals ''alice''))
         (exampleOptions\<lparr>gateway := Some ''''\<rparr>) ([], emptyState)
       = (Inl (Error ''gateway must be specified.''), ([], emptyState))"
  using
    buy_without_gateway[of "exampleOptions\<lparr>gateway := None\<rparr>" exampleBigNumber
      "newMachinomy exampleExternals ''alice''" emptyState "[]"]
    buy_without_gateway[of "exampleOptions\<lparr>gateway := Some ''''\<rparr>" exampleBigNumber
      "newMachinomy exampleExternals ''alice''" emptyState "[]"]
  by simp

text \<open>
  Claim C3. For a purchase with a gateway, \<^verbatim>\<open>buy\<close> calls, in this order and with these
  arguments, \<^verbatim>\<open>requireOpenChannel\<close> and \<^verbatim>\<open>nextPayment\<close> (the minting), \<^verbatim>\<open>doPayment\<close>
  to the gateway and \<^verbatim>\<open>spendChannel\<close> on the payment that was minted and delivered. A
  step that fails ends the purchase with the error of that step, and no later step is
  called: in particular \<^verbatim>\<open>spendChannel\<close> is called only after \<^verbatim>\<open>doPayment\<close> has
  succeeded. The same holds for the registry's accessors and for the construction of the
  price, which comes after the first two accessors: if the constructor throws, no
  collaborator is called. When all steps succeed the result is the token of the delivery
  and the channel id of the payment. On the Channel Manager of the specification, a
  failed purchase leaves \<open>spent\<close> of every tracked channel as it was (at most a new
  channel has been opened, with nothing spent), and after a successful one the channel of
  the payment has spent exactly the value of the payment the payee accepted.
\<close>

theorem buy_sequence:
  assumes "BuyOptions.gateway options = Some g" and "g \<noteq> ''''"
  shows
    "(client (registry this) w = (Inl e, wa) \<longrightarrow>
        Machinomy_buy lib (spy this) options (log, w) = (Inl e, (log, wa)))
   \<and> (client (registry this) w = (Inr cl, wa) \<and>
      channelManager (registry this) wa = (Inl e, wb) \<longrightarrow>
        Machinomy_buy lib (spy this) options (log, w) = (Inl e, (log, wb)))
   \<and> (client (registry this) w = (Inr cl, wa) \<and>
      channelManager (registry this) wa = (Inr cm, wb) \<and>
      newBigNumber lib (BuyOptions.price options) = Inl e \<longrightarrow>
        Machinomy_buy lib (spy this) options (log, w) = (Inl e, (log, wb)))
   \<and> (client (registry this) w = (Inr cl, wa) \<and>
      channelManager (registry this) wa = (Inr cm, wb) \<and>
      newBigNumber lib (BuyOptions.price options) = Inr v \<and>
      channelManager (registry this) wb = (Inl e, wc) \<longrightarrow>
        Machinomy_buy lib (spy this) options (log, w) = (Inl e, (log, wc)))
   \<and> (client (registry this) w = (Inr cl, wa) \<and>
      channelManager (registry this) wa = (Inr cm, wb) \<and>
      newBigNumber lib (BuyOptions.price options) = Inr v \<and>
      channelManager (registry this) wb = (Inr cm', wc) \<and>
      requireOpenChannel cm' (account this) (BuyOptions.receiver options) v wc = (Inl e, wd) \<longrightarrow>
        Machinomy_buy lib (spy this) options (log, w)
          = (Inl e,
             (log @ [RequireOpenChannel (account this) (BuyOptions.receiver options) v], wd)))
   \<and> (client (registry this) w = (Inr cl, wa) \<and>
      channelManager (registry this) wa = (Inr cm, wb) \<and>
      newBigNumber lib (BuyOptions.price options) = Inr v \<and>
      channelManager (registry this) wb = (Inr cm', wc) \<and>
      requireOpenChannel cm' (account this) (BuyOptions.receiver options) v wc = (Inr ch, wd) \<and>
      nextPayment cm' (PaymentChannel.channelId ch) v (metaOrEmpty (BuyOptions.meta options)) wd
        = (Inl e, we) \<longrightarrow>
        Machinomy_buy lib (spy this) options (log, w)
          = (Inl e,
             (log @ [RequireOpenChannel (account this) (BuyOptions.receiver options) v,
                     NextPayment (PaymentChannel.channelId ch) v
                       (metaOrEmpty (BuyOptions.meta options))], we)))
   \<and> (client (registry this) w = (Inr cl, wa) \<and>
      channelManager (registry this) wa = (Inr cm, wb) \<and>
      newBigNumber lib (BuyOptions.price options) = Inr v \<and>
      channelManager (registry this) wb = (Inr cm', wc) \<and>
      requireOpenChannel cm' (account this) (BuyOptions.receiver options) v wc = (Inr ch, wd) \<and>
      nextPayment cm' (PaymentChannel.channelId ch) v (metaOrEmpty (BuyOptions.meta options)) wd
        = (Inr p, we) \<and>
      doPayment cl p g (purchaseMeta options) we = (Inl e, wx) \<longrightarrow>
        Machinomy_buy lib (spy this) options (log, w)
          = (Inl e,
             (log @ [RequireOpenChannel (account this) (BuyOptions.receiver options) v,
                     NextPayment (PaymentChannel.channelId ch) v
                       (metaOrEmpty (BuyOptions.meta options)),
                     DoPayment p g (purchaseMeta options)], wx)))
   \<and> (client (registry this) w = (Inr cl, wa) \<and>
      channelManager (registry this) wa = (Inr cm, wb) \<and>
      newBigNumber lib (BuyOptions.price options) = Inr v \<and>
      channelManager (registry this) wb = (Inr cm', wc) \<and>
      requireOpenChannel cm' (account this) (BuyOptions.receiver options) v wc = (Inr ch, wd) \<and>
      nextPayment cm' (PaymentChannel.channelId ch) v (metaOrEmpty (BuyOptions.meta options)) wd
        = (Inr p, we) \<and>
      doPayment cl p g (purchaseMeta options) we = (Inr res, wx) \<and>
      spendChannel cm p wx = (Inl e, wy) \<longrightarrow>
        Machinomy_buy lib (spy this) options (log, w)
          = (Inl e,
             (log @ [RequireOpenChannel (account this) (BuyOptions.receiver options) v,
                     NextPayment (PaymentChannel.channelId ch) v
                       (metaOrEmpty (BuyOptions.meta options)),
                     DoPayment p g (purchaseMeta options),
                     SpendChannel p], wy)))
   \<and> (client (registry this) w = (Inr cl, wa) \<and>
      channelManager (registry this) wa = (Inr cm, wb) \<and>
      newBigNumber lib (BuyOptions.price options) = Inr v \<and>
      channelManager (registry this) wb = (Inr cm', wc) \<and>
      requireOpenChannel cm' (account this) (BuyOptions.receiver options) v wc = (Inr ch, wd) \<and>
      nextPayment cm' (PaymentChannel.channelId ch) v (metaOrEmpty (BuyOptions.meta options)) wd
        = (Inr p, we) \<and>
      doPayment cl p g (purchaseMeta options) we = (Inr res, wx) \<and>
      spendChannel cm p wx = (Inr u, wy) \<longrightarrow>
        Machinomy_buy lib (spy this) options (log, w)
          = (Inr \<lparr>BuyResult.token = AcceptPaymentResponse.token res,
                   channelId = Payment.channelId p\<rparr>,
             (log @ [RequireOpenChannel (account this) (BuyOptions.receiver options) v,
                     NextPayment (PaymentChannel.channelId ch) v
                       (metaOrEmpty (BuyOptions.meta options)),
                     DoPayment p g (purchaseMeta options),
                     SpendChannel p], wy)))
   \<and> (Machinomy_buy lib' (newMachinomy ext a) options st = (Inl e', st') \<longrightarrow>
        channels st' = channels st \<or> (\<exists>c. channels st' = channels st @ [c] \<and> spent c = 0))
   \<and> (Machinomy_buy lib' (newMachinomy ext a) options st = (Inr r, st') \<longrightarrow>
        (\<exists>p c. payee ext p g (purchaseMeta options) = Some (BuyResult.token r)
           \<and> Payment.channelId p = BuyResult.channelId r
           \<and> channelById (BuyResult.channelId r) st' = Some c \<and> spent c = value' p))"
proof -
  show ?thesis
    using assms buy_spec_failed[of lib' ext a options st e' st']
      buy_spec_succeeded[of lib' ext a options st r st']
    by (auto simp: Machinomy_buy_def Machinomy_nextPayment_def spy_defs await_def handing_def
          logged_def resolve_def reject_def evaluating_def)
qed

theorem buy_sequence_witness:
  "Machinomy_buy exampleBigNumber (spy (stubMachinomy (\<lambda>n. n \<noteq> 0))) exampleOptions ([], 0)
     = (Inl (Error ''no client''), ([], 1))
   \<and> Machinomy_buy exampleBigNumber (spy (stubMachinomy (\<lambda>n. n \<noteq> 1))) exampleOptions ([], 0)
     = (Inl (Error ''no manager''), ([], 2))
   \<and> Machinomy_buy exampleBigNumber (spy (stubMachinomy (\<lambda>n. True)))
         (exampleOptions\<lparr>price := 9007199254740992\<rparr>) ([], 0)
     = (Inl (Error ''new BigNumber() number type has more than 15 significant digits''), ([], 2))
   \<and> Machinomy_buy exampleBigNumber (spy (stubMachinomy (\<lambda>n. n \<noteq> 2))) exampleOptions ([], 0)
     = (Inl (Error ''no manager''), ([], 3))
   \<and> Machinomy_buy exampleBigNumber (spy (stubMachinomy (\<lambda>n. n \<noteq> 3))) exampleOptions ([], 0)
     = (Inl ChainSubmissionError, ([RequireOpenChannel ''alice'' ''bob'' 100], 4))
   \<and> Machinomy_buy exampleBigNumber (spy (stubMachinomy (\<lambda>n. n \<noteq> 4))) exampleOptions ([], 0)
     = (Inl InsufficientChannelValue,
        ([RequireOpenChannel ''alice'' ''bob'' 100, NextPayment ''c1'' 100 ''''], 5))
   \<and> Machinomy_buy exampleBigNumber (spy (stubMachinomy (\<lambda>n. n \<noteq> 5))) exampleOptions ([], 0)
     = (Inl PaymentRejected,
        ([RequireOpenChannel ''alice'' ''bob'' 100, NextPayment ''c1'' 100 '''',
          DoPayment examplePayment ''http://localhost:3001/machinomy'' None], 6))
   \<and> Machinomy_buy exampleBigNumber (spy (stubMachinomy (\<lambda>n. n \<noteq> 6))) exampleOptions ([], 0)
     = (Inl StalePayment,
        ([RequireOpenChannel ''alice'' ''bob'' 100, NextPayment ''c1'' 100 '''',
          DoPayment examplePayment ''http://localhost:3001/machinomy'' None,
          SpendChannel examplePayment], 7))
   \<and> Machinomy_buy exampleBigNumber (spy (stubMachinomy (\<lambda>n. True))) exampleOptions ([], 0)
     = (Inr \<lparr>BuyResult.token = ''tok'', channelId = ''c1''\<rparr>,
        ([RequireOpenChannel ''alice'' ''bob'' 100, NextPayment ''c1'' 100 '''',
          DoPayment examplePayment ''http://localhost:3001/machinomy'' None,
          SpendChannel examplePayment], 7))
   \<and> fst (Machinomy_buy exampleBigNumber
            (newMachinomy (exampleExternals\<lparr>payee := (\<lambda>p g m. None)\<rparr>) ''alice'')
            exampleOptions emptyState) = Inl PaymentRejected
   \<and> map spent (channels (snd (Machinomy_buy exampleBigNumber
            (newMachinomy (exampleExternals\<lparr>payee := (\<lambda>p g m. None)\<rparr>) ''alice'')
            exampleOptions emptyState))) = [0]
   \<and> fst (Machinomy_buy exampleBigNumber (newMachinomy exampleExternals ''alice'')
            exampleOptions emptyState)
       = Inr \<lparr>BuyResult.token = ''tok'', channelId = ''alicebob''\<rparr>
   \<and> map spent (channels (snd (Machinomy_buy exampleBigNumber
            (newMachinomy exampleExternals ''alice'') exampleOptions emptyState))) = [100]"
  using
    buy_sequence[where options = exampleOptions and g = "''http://localhost:3001/machinomy''"
      and lib = exampleBigNumber
      and this = "stubMachinomy (\<lambda>n. n \<noteq> 0)" and w = 0 and wa = 1 and log = "[]"
      and e = "Error ''no client''"]
    buy_sequence[where options = "exampleOptions\<lparr>price := 9007199254740992\<rparr>"
      and g = "''http://localhost:3001/machinomy''" and lib = exampleBigNumber
      and this = "stubMachinomy (\<lambda>n. True)" and w = 0 and wa = 1 and wb = 2 and log = "[]"
      and cl = "stubClient (\<lambda>n. True)" and cm = "stubChannelManager (\<lambda>n. True)"
      and e = "Error ''new BigNumber() number type has more than 15 significant digits''"]
    buy_sequence[where options = exampleOptions and g = "''http://localhost:3001/machinomy''"
      and lib = exampleBigNumber and v = 100
      and this = "stubMachinomy (\<lambda>n. True)" and w = 0 and wa = 1 and wb = 2 and wc = 3
      and wd = 4 and we = 5 and wx = 6 and wy = 7 and log = "[]"
      and cl = "stubClient (\<lambda>n. True)" and cm = "stubChannelManager (\<lambda>n. True)"
      and cm' = "stubChannelManager (\<lambda>n. True)" and ch = exampleChannel
      and p = examplePayment and res = "\<lparr>AcceptPaymentResponse.token = ''tok''\<rparr>" and u = "()"
      and lib' = exampleBigNumber and ext = exampleExternals and a = "''alice''"
      and st = emptyState]
  by (simp add: stub_defs run_defs spec_defs manager_defs)

subsection \<open>A payment without delivery, and opening a channel\<close>

lemma payment_spec_unfold:
  "Machinomy_payment lib serialize (newMachinomy ext a) options st =
     (case Machinomy_nextPayment lib (newMachinomy ext a) options st of
        (Inl e, st2) \<Rightarrow> (Inl e, st2)
      | (Inr p, st2) \<Rightarrow>
          (case spec_spendChannel p st2 of
             (Inl e, st3) \<Rightarrow> (Inl e, st3)
           | (Inr u, st3) \<Rightarrow>
               (case serialize p of
                  Inl e \<Rightarrow> (Inl e, st3)
                | Inr s \<Rightarrow> (Inr \<lparr>payment = s\<rparr>, st3))))"
  by (simp add: Machinomy_payment_def spec_defs await_def resolve_def reject_def evaluating_def
           split: prod.splits sum.splits option.splits)

lemma payment_spec_succeeded:
  assumes "Machinomy_payment lib serialize (newMachinomy ext a) options st = (Inr r, st')"
  shows "\<exists>p c' v. newBigNumber lib (BuyOptions.price options) = Inr v
           \<and> serialize p = Inr (payment r)
           \<and> channelById (Payment.channelId p) st' = Some c' \<and> spent c' = value' p
           \<and> value' p = (case channelById (Payment.channelId p) st of
                            Some c \<Rightarrow> spent c | None \<Rightarrow> 0) + v"
proof -
  obtain y st2 where np: "Machinomy_nextPayment lib (newMachinomy ext a) options st = (y, st2)"
    by fastforce
  from assms np obtain p where y: "y = Inr p"
    by (cases y) (auto simp: payment_spec_unfold)
  from assms np y obtain u where sc: "spec_spendChannel p st2 = (Inr u, st')"
    and r: "serialize p = Inr (payment r)"
    by (auto simp: payment_spec_unfold split: prod.splits sum.splits)
  from nextPayment_spec_minted[OF np[unfolded y]] obtain v c where
    v: "newBigNumber lib (BuyOptions.price options) = Inr v"
    and c: "channelById (Payment.channelId p) st2 = Some c" "value' p = spent c + v"
      "spent c = (case channelById (Payment.channelId p) st of Some c0 \<Rightarrow> spent c0 | None \<Rightarrow> 0)"
    by blast
  from spec_spendChannel_committed[OF sc] obtain c0 where
    "channelById (Payment.channelId p) st' = Some (c0\<lparr>spent := value' p\<rparr>)"
    by auto
  with r v c show ?thesis by auto
qed

text \<open>
  Claim C9. \<^verbatim>\<open>payment\<close> never looks at the gateway and never calls \<^verbatim>\<open>doPayment\<close>,
  whatever its outcome: it asks for the channel manager, constructs the price, and calls
  \<^verbatim>\<open>requireOpenChannel\<close>, \<^verbatim>\<open>nextPayment\<close> and then at once \<^verbatim>\<open>spendChannel\<close> on the
  minted payment, stopping at the first step that fails with the error of that step. Once
  the spend is committed the payment is serialized: the call returns the serialized
  payment, or rejects when the serializer throws, with the commit in place. On the Channel Manager of the
  specification this commit advances \<open>spent\<close> of the payment's channel by the price
  (from zero for a channel opened on the way), although nothing was delivered to a
  receiver.
\<close>

theorem payment_commits_undelivered:
  "(channelManager (registry this) w = (Inl e, wa) \<longrightarrow>
      Machinomy_payment lib serialize (spy this) options (log, w) = (Inl e, (log, wa)))
   \<and> (channelManager (registry this) w = (Inr cm, wa) \<and>
      newBigNumber lib (BuyOptions.price options) = Inl e \<longrightarrow>
        Machinomy_payment lib serialize (spy this) options (log, w) = (Inl e, (log, wa)))
   \<and> (channelManager (registry this) w = (Inr cm, wa) \<and>
      newBigNumber lib (BuyOptions.price options) = Inr v \<and>
      channelManager (registry this) wa = (Inl e, wb) \<longrightarrow>
        Machinomy_payment lib serialize (spy this) options (log, w) = (Inl e, (log, wb)))
   \<and> (channelManager (registry this) w = (Inr cm, wa) \<and>
      newBigNumber lib (BuyOptions.price options) = Inr v \<and>
      channelManager (registry this) wa = (Inr cm', wb) \<and>
      requireOpenChannel cm' (account this) (BuyOptions.receiver options) v wb = (Inl e, wc) \<longrightarrow>
        Machinomy_payment lib serialize (spy this) options (log, w)
          = (Inl e,
             (log @ [RequireOpenChannel (account this) (BuyOptions.receiver options) v], wc)))
   \<and> (channelManager (registry this) w = (Inr cm, wa) \<and>
      newBigNumber lib (BuyOptions.price options) = Inr v \<and>
      channelManager (registry this) wa = (Inr cm', wb) \<and>
      requireOpenChannel cm' (account this) (BuyOptions.receiver options) v wb = (Inr ch, wc) \<and>
      nextPayment cm' (PaymentChannel.channelId ch) v (metaOrEmpty (BuyOptions.meta options)) wc
        = (Inl e, wd) \<longrightarrow>
        Machinomy_payment lib serialize (spy this) options (log, w)
          = (Inl e,
             (log @ [RequireOpenChannel (account this) (BuyOptions.receiver options) v,
                     NextPayment (PaymentChannel.channelId ch) v
                       (metaOrEmpty (BuyOptions.meta options))], wd)))
   \<and> (channelManager (registry this) w = (Inr cm, wa) \<and>
      newBigNumber lib (BuyOptions.price options) = Inr v \<and>
      channelManager (registry this) wa = (Inr cm', wb) \<and>
      requireOpenChannel cm' (account this) (BuyOptions.receiver options) v wb = (Inr ch, wc) \<and>
      nextPayment cm' (PaymentChannel.channelId ch) v (metaOrEmpty (BuyOptions.meta options)) wc
        = (Inr p, wd) \<and>
      spendChannel cm p wd = (Inl e, we) \<longrightarrow>
        Machinomy_payment lib serialize (spy this) options (log, w)
          = (Inl e,
             (log @ [RequireOpenChannel (account this) (BuyOptions.receiver options) v,
                     NextPayment (PaymentChannel.channelId ch) v
                       (metaOrEmpty (BuyOptions.meta options)),
                     SpendChannel p], we)))
   \<and> (channelManager (registry this) w = (Inr cm, wa) \<and>
      newBigNumber lib (BuyOptions.price options) = Inr v \<and>
      channelManager (registry this) wa = (Inr cm', wb) \<and>
      requireOpenChannel cm' (account this) (BuyOptions.receiver options) v wb = (Inr ch, wc) \<and>
      nextPayment cm' (PaymentChannel.channelId ch) v (metaOrEmpty (BuyOptions.meta options)) wc
        = (Inr p, wd) \<and>
      spendChannel cm p wd = (Inr u, we) \<and>
      serialize p = Inl e \<longrightarrow>
        Machinomy_payment lib serialize (spy this) options (log, w)
          = (Inl e,
             (log @ [RequireOpenChannel (account this) (BuyOptions.receiver options) v,
                     NextPayment (PaymentChannel.channelId ch) v
                       (metaOrEmpty (BuyOptions.meta options)),
                     SpendChannel p], we)))
   \<and> (channelManager (registry this) w = (Inr cm, wa) \<and>
      newBigNumber lib (BuyOptions.price options) = Inr v \<and>
      channelManager (registry this) wa = (Inr cm', wb) \<and>
      requireOpenChannel cm' (account this) (BuyOptions.receiver options) v wb = (Inr ch, wc) \<and>
      nextPayment cm' (PaymentChannel.channelId ch) v (metaOrEmpty (BuyOptions.meta options)) wc
        = (Inr p, wd) \<and>
      spendChannel cm p wd = (Inr u, we) \<and>
      serialize p = Inr serialized \<longrightarrow>
        Machinomy_payment lib serialize (spy this) options (log, w)
          = (Inr \<lparr>payment = serialized\<rparr>,
             (log @ [RequireOpenChannel (account this) (BuyOptions.receiver options) v,
                     NextPayment (PaymentChannel.channelId ch) v
                       (metaOrEmpty (BuyOptions.meta options)),
                     SpendChannel p], we)))
   \<and> (Machinomy_payment lib' serialize (newMachinomy ext a) options st = (Inr r, st') \<longrightarrow>
        (\<exists>p c' v. newBigNumber lib' (BuyOptions.price options) = Inr v
           \<and> serialize p = Inr (payment r)
           \<and> channelById (Payment.channelId p) st' = Some c' \<and> spent c' = value' p
           \<and> value' p = (case channelById (Payment.channelId p) st of
                            Some c \<Rightarrow> spent c | None \<Rightarrow> 0) + v))"
  using payment_spec_succeeded[of lib' serialize ext a options st r st']
  by (auto simp: Machinomy_payment_def Machinomy_nextPayment_def spy_defs await_def handing_def
        logged_def resolve_def reject_def evaluating_def)

theorem payment_commits_undelivered_witness:
  "BuyOptions.gateway (exampleOptions\<lparr>gateway := None\<rparr>) = None
   \<and> Machinomy_payment exampleBigNumber Inr (spy (stubMachinomy (\<lambda>n. True)))
         (exampleOptions\<lparr>gateway := None\<rparr>) ([], 0)
       = (Inr \<lparr>payment = examplePayment\<rparr>,
          ([RequireOpenChannel ''alice'' ''bob'' 100, NextPayment ''c1'' 100 '''',
            SpendChannel examplePayment], 5))
   \<and> Machinomy_payment exampleBigNumber Inr (spy (stubMachinomy (\<lambda>n. True)))
         (exampleOptions\<lparr>price := 9007199254740992\<rparr>) ([], 0)
       = (Inl (Error ''new BigNumber() number type has more than 15 significant digits''), ([], 1))
   \<and> Machinomy_payment exampleBigNumber Inr (spy (stubMachinomy (\<lambda>n. n \<noteq> 4)))
         exampleOptions ([], 0)
       = (Inl StalePayment,
          ([RequireOpenChannel ''alice'' ''bob'' 100, NextPayment ''c1'' 100 '''',
            SpendChannel examplePayment], 5))
   \<and> Machinomy_payment exampleBigNumber (\<lambda>p. Inl (Error ''not serializable'') :: error + int)
         (spy (stubMachinomy (\<lambda>n. True))) exampleOptions ([], 0)
       = (Inl (Error ''not serializable''),
          ([RequireOpenChannel ''alice'' ''bob'' 100, NextPayment ''c1'' 100 '''',
            SpendChannel examplePayment], 5))
   \<and> fst (Machinomy_payment exampleBigNumber exampleSerialize
            (newMachinomy exampleExternals ''alice'')
            (exampleOptions\<lparr>gateway := None\<rparr>) emptyState)
       = Inr \<lparr>payment = 100\<rparr>
   \<and> map spent (channels (snd (Machinomy_payment exampleBigNumber exampleSerialize
            (newMachinomy exampleExternals ''alice'')
            (exampleOptions\<lparr>gateway := None\<rparr>) emptyState))) = [100]"
  using
    payment_commits_undelivered[where this = "stubMachinomy (\<lambda>n. True)"
      and lib = exampleBigNumber and v = 100
      and options = "exampleOptions\<lparr>gateway := None\<rparr>" and serialize = Inr
      and serialized = examplePayment
      and w = 0 and wa = 1 and wb = 2 and wc = 3 and wd = 4 and we = 5 and log = "[]"
      and cm = "stubChannelManager (\<lambda>n. True)" and cm' = "stubChannelManager (\<lambda>n. True)"
      and ch = exampleChannel and p = examplePayment and u = "()"]
    payment_commits_undelivered[where this = "stubMachinomy (\<lambda>n. True)"
      and lib = exampleBigNumber and options = "exampleOptions\<lparr>price := 9007199254740992\<rparr>"
      and serialize = Inr and w = 0 and wa = 1 and log = "[]"
      and cm = "stubChannelManager (\<lambda>n. True)"
      and e = "Error ''new BigNumber() number type has more than 15 significant digits''"]
    payment_commits_undelivered[where this = "stubMachinomy (\<lambda>n. True)"
      and lib = exampleBigNumber and v = 100 and options = exampleOptions
      and serialize = "\<lambda>p. Inl (Error ''not serializable'') :: error + int"
      and e = "Error ''not serializable''"
      and w = 0 and wa = 1 and wb = 2 and wc = 3 and wd = 4 and we = 5 and log = "[]"
      and cm = "stubChannelManager (\<lambda>n. True)" and cm' = "stubChannelManager (\<lambda>n. True)"
      and ch = exampleChannel and p = examplePayment and u = "()"]
    payment_commits_undelivered[where serialize = exampleSerialize and lib' = exampleBigNumber
      and ext = exampleExternals
      and a = "''alice''" and options = "exampleOptions\<lparr>gateway := None\<rparr>"
      and st = emptyState]
  by (simp add: stub_defs Machinomy_payment_def run_defs spec_defs manager_defs
        exampleSerialize_def)




lemma suitable_found:
  "c \<in> set (channels st) \<Longrightarrow> \<exists>x. channelById (PaymentChannel.channelId c) st = Some x"
  by (cases "channelById (PaymentChannel.channelId c) st") (auto simp: channelById_def find_None_iff)

subsection \<open>The operations of the Channel Manager\<close>

text \<open>
  Claim C2. For a payment of a tracked channel (as every minted payment is),
  \<^verbatim>\<open>spendChannel\<close> succeeds exactly when the payment's value strictly exceeds the
  channel's committed \<open>spent\<close>, and then the channel's \<open>spent\<close> is the payment's value
  and nothing else of the channel has changed; when the value is at most \<open>spent\<close> it
  fails with \<open>StalePayment\<close> and leaves the state as it was.
\<close>

theorem spendChannel_commits_or_stale:
  assumes "channelById (Payment.channelId p) st = Some c"
  shows "(spent c < value' p \<longrightarrow>
            (\<exists>st'. spec_spendChannel p st = (Inr (), st')
               \<and> channelById (Payment.channelId p) st' = Some (c\<lparr>spent := value' p\<rparr>)))
       \<and> (value' p \<le> spent c \<longrightarrow> spec_spendChannel p st = (Inl StalePayment, st))
       \<and> ((\<exists>st'. spec_spendChannel p st = (Inr (), st')) \<longleftrightarrow> spent c < value' p)"
  using assms
  by (auto simp: spec_spendChannel_def channelById_def find_updateChannel_same)

text \<open>
  Claim C4. \<^verbatim>\<open>nextPayment\<close> never changes the recorded state, whatever it returns. For
  an unknown channel id it fails with \<open>ChannelNotFound\<close>; for an open channel it fails
  with \<open>InsufficientChannelValue\<close> when \<open>spent + priceIncrement\<close> would exceed \<open>deposited\<close>
  and otherwise returns a payment of the channel whose cumulative value is
  \<open>spent + priceIncrement\<close>, signed by the sender.
\<close>

theorem nextPayment_mints_without_mutation:
  "snd (spec_nextPayment ext cid priceIncrement m st) = st
   \<and> (channelById cid st = None \<longrightarrow>
        spec_nextPayment ext cid priceIncrement m st = (Inl ChannelNotFound, st))
   \<and> (channelById cid st = Some c \<and> state c = Open \<and> deposited c < spent c + priceIncrement \<longrightarrow>
        spec_nextPayment ext cid priceIncrement m st = (Inl InsufficientChannelValue, st))
   \<and> (channelById cid st = Some c \<and> state c = Open \<and> spent c + priceIncrement \<le> deposited c \<longrightarrow>
        (\<exists>p. spec_nextPayment ext cid priceIncrement m st = (Inr p, st)
           \<and> value' p = spent c + priceIncrement
           \<and> Payment.channelId p = cid
           \<and> Payment.sender p = PaymentChannel.sender c
           \<and> Payment.receiver p = PaymentChannel.receiver c
           \<and> channelValue p = deposited c
           \<and> Payment.meta p = m
           \<and> signature p = sign ext (p\<lparr>signature := ''''\<rparr>)))"
  by (auto simp: spec_nextPayment_def Let_def split: option.splits)

lemma find_suitable:
  "find P cs = Some c \<Longrightarrow> c \<in> set cs \<and> P c"
  by (induction cs) (auto split: if_splits)

theorem spendChannel_commits_or_stale_witness:
  "channelById (Payment.channelId examplePayment) exampleState = Some exampleChannel
   \<and> spent exampleChannel < value' examplePayment
   \<and> spec_spendChannel examplePayment exampleState
       = (Inr (), \<lparr>channels = [exampleChannel\<lparr>spent := 400\<rparr>], nonce = 1\<rparr>)
   \<and> value' (examplePayment\<lparr>value' := 250\<rparr>) \<le> spent exampleChannel
   \<and> spec_spendChannel (examplePayment\<lparr>value' := 250\<rparr>) exampleState
       = (Inl StalePayment, exampleState)"
  using
    spendChannel_commits_or_stale[of examplePayment exampleState exampleChannel]
    spendChannel_commits_or_stale[of "examplePayment\<lparr>value' := 250\<rparr>" exampleState exampleChannel]
  by (simp add: exampleState_def exampleChannel_def examplePayment_def manager_defs)

theorem nextPayment_mints_without_mutation_witness:
  "channelById ''c1'' exampleState = Some exampleChannel
   \<and> state exampleChannel = Open
   \<and> spec_nextPayment exampleExternals ''c1'' 100 '''' exampleState = (Inr examplePayment, exampleState)
   \<and> spec_nextPayment exampleExternals ''c1'' 800 '''' exampleState
       = (Inl InsufficientChannelValue, exampleState)
   \<and> channelById ''c9'' exampleState = None
   \<and> spec_nextPayment exampleExternals ''c9'' 100 '''' exampleState
       = (Inl ChannelNotFound, exampleState)"
  using
    nextPayment_mints_without_mutation[of exampleExternals "''c1''" 100 "''''" exampleState
      exampleChannel]
    nextPayment_mints_without_mutation[of exampleExternals "''c1''" 800 "''''" exampleState
      exampleChannel]
    nextPayment_mints_without_mutation[of exampleExternals "''c9''" 100 "''''" exampleState]
  by (simp add: exampleState_def exampleChannel_def examplePayment_def manager_defs)

text \<open>
  Claim C5, as amended. When some tracked channel is \<open>Open\<close>, between the sender and the
  receiver, with \<open>deposited - spent \<ge> price\<close>, \<^verbatim>\<open>requireOpenChannel\<close> returns such a
  channel and changes nothing. Otherwise, for a positive price and an opening transaction
  that the chain confirms, it returns a new \<open>Open\<close> channel between the two with
  \<open>price * 10\<close> deposited and nothing spent, now tracked; for a price that is not
  positive it fails with \<open>InvalidParameters\<close>, and for a transaction that fails with
  \<open>ChainSubmissionError\<close>, in both cases opening nothing.
\<close>

theorem requireOpenChannel_reuses_or_opens:
  "((\<exists>c \<in> set (channels st). suitable s r price' c) \<longrightarrow>
      (\<exists>c. spec_requireOpenChannel ext s r price' st = (Inr c, st)
         \<and> c \<in> set (channels st) \<and> suitable s r price' c))
   \<and> (\<not> (\<exists>c \<in> set (channels st). suitable s r price' c) \<and> 0 < price'
      \<and> submit ext (ChainOpen r (nonce st) (price' * 10)) = Some tx \<longrightarrow>
        (\<exists>c st'. spec_requireOpenChannel ext s r price' st = (Inr c, st')
           \<and> channels st' = channels st @ [c]
           \<and> deposited c = price' * 10 \<and> spent c = 0 \<and> state c = Open
           \<and> PaymentChannel.sender c = s \<and> PaymentChannel.receiver c = r))
   \<and> (\<not> (\<exists>c \<in> set (channels st). suitable s r price' c) \<and> price' \<le> 0 \<longrightarrow>
        spec_requireOpenChannel ext s r price' st = (Inl InvalidParameters, st))
   \<and> (\<not> (\<exists>c \<in> set (channels st). suitable s r price' c) \<and> 0 < price'
      \<and> submit ext (ChainOpen r (nonce st) (price' * 10)) = None \<longrightarrow>
        spec_requireOpenChannel ext s r price' st = (Inl ChainSubmissionError, st))"
  by (auto simp: spec_requireOpenChannel_def spec_openChannel_def Let_def find_None_iff
           split: option.splits dest: find_suitable)

theorem requireOpenChannel_reuses_or_opens_witness:
  "suitable ''alice'' ''bob'' 100 exampleChannel
   \<and> spec_requireOpenChannel exampleExternals ''alice'' ''bob'' 100 exampleState
       = (Inr exampleChannel, exampleState)
   \<and> \<not> suitable ''alice'' ''bob'' 800 exampleChannel
   \<and> spec_requireOpenChannel exampleExternals ''alice'' ''bob'' 800 exampleState
       = (Inr \<lparr>PaymentChannel.channelId = ''alicebob+'', sender = ''alice'', receiver = ''bob'',
                deposited = 8000, spent = 0, state = Open, settlementDeadline = None\<rparr>,
          \<lparr>channels =
             [exampleChannel,
              \<lparr>PaymentChannel.channelId = ''alicebob+'', sender = ''alice'', receiver = ''bob'',
                deposited = 8000, spent = 0, state = Open, settlementDeadline = None\<rparr>],
           nonce = 2\<rparr>)
   \<and> spec_requireOpenChannel exampleExternals ''alice'' ''carol'' 0 exampleState
       = (Inl InvalidParameters, exampleState)
   \<and> spec_requireOpenChannel offlineExternals ''alice'' ''bob'' 800 exampleState
       = (Inl ChainSubmissionError, exampleState)"
  using
    requireOpenChannel_reuses_or_opens[of exampleState "''alice''" "''bob''" 100 exampleExternals]
    requireOpenChannel_reuses_or_opens[of exampleState "''alice''" "''bob''" 800 exampleExternals
      "''0xtx''"]
    requireOpenChannel_reuses_or_opens[of exampleState "''alice''" "''carol''" 0 exampleExternals]
    requireOpenChannel_reuses_or_opens[of exampleState "''alice''" "''bob''" 800 offlineExternals]
  by (simp add: exampleState_def exampleChannel_def manager_defs offlineExternals_def Let_def)

text \<open>
  Claim C5 as stated, for every price, does not hold: with no channel between the two
  parties, a price of 0 is refused (the deposit of the channel to open would be 0), and
  on a chain where the transaction fails a price of 100 opens nothing either.
\<close>

theorem requireOpenChannel_unopened_counterexample:
  "channels emptyState = []
   \<and> spec_requireOpenChannel exampleExternals ''alice'' ''bob'' 0 emptyState
       = (Inl InvalidParameters, emptyState)
   \<and> spec_requireOpenChannel offlineExternals ''alice'' ''bob'' 100 emptyState
       = (Inl ChainSubmissionError, emptyState)"
  by (simp add: manager_defs offlineExternals_def)

subsection \<open>The invariant of the channels\<close>


lemma notDecreased_refl: "notDecreased c c"
  by (simp add: notDecreased_def)


lemma list_all2_notDecreased_refl: "list_all2 notDecreased cs cs"
  by (simp add: list_all2_refl notDecreased_refl)



lemma spentNotDecreased_same_channels:
  "channels st' = channels st \<Longrightarrow> spentNotDecreased st st'"
  by (simp add: spentNotDecreased_def list_all2_notDecreased_refl)




lemma backed_same_channels:
  "channels st' = channels st \<Longrightarrow> backed st p \<Longrightarrow> backed st' p"
  by (simp add: backed_def channelById_def)



























end
